theory Spec2Isabelle
  imports Complex_Main
begin

section \<open>Values of the host language\<close>

text \<open>
  A JavaScript number as the pages use it: the result of \<open>parseFloat\<close>/\<open>parseInt\<close> on
  an input field is either a number or \<open>NaN\<close>. Only truthiness and sign matter here, so
  the finite values are read as reals. A string is a list of code units; an optional
  argument or a nullable column is an \<open>option\<close>.
\<close>

datatype js_number = NaN | Num real

definition truthy_number :: "js_number \<Rightarrow> bool" where
  "truthy_number n = (case n of NaN \<Rightarrow> False | Num r \<Rightarrow> r \<noteq> 0)"

definition truthy_string :: "string \<Rightarrow> bool" where
  "truthy_string s = (s \<noteq> [])"

definition truthy_opt_string :: "string option \<Rightarrow> bool" where
  "truthy_opt_string t = (case t of None \<Rightarrow> False | Some s \<Rightarrow> truthy_string s)"

section \<open>Data model of \<open>AdminPage.tsx\<close>\<close>

record Product =
  name :: string
  description :: string
  price :: js_number
  image_url :: string
  category :: string
  stock :: js_number
  unit :: string
  is_active :: bool

record ShippingAddress =
  fullName :: "string option"
  address :: "string option"
  city :: "string option"
  state :: "string option"
  pincode :: "string option"
  phone :: "string option"

text \<open>
  The \<open>status\<close> column is typed as a union of seven string literals; at run time it is a
  string (the select's value is cast, not checked), so it is a string here.
\<close>

record Order =
  order_id :: string
  user_id :: string
  status :: string
  total_amount :: real
  shipping_address :: ShippingAddress
  tracking_number :: "string option"
  order_notes :: "string option"
  created_at :: string

definition statusOptions :: "string list" where
  "statusOptions =
     [''pending'', ''confirmed'', ''processing'', ''packed'', ''shipped'', ''delivered'',
      ''cancelled'']"

text \<open>
  \<open>updateData\<close> of \<open>handleUpdateOrderStatus\<close>: the key \<open>status\<close> is always present, the
  key \<open>tracking_number\<close> only when it was assigned (\<open>None\<close> is the absent key).
\<close>

record UpdateData =
  ud_status :: string
  ud_tracking_number :: "string option"

text \<open>The body of the \<open>send-order-notification\<close> invocation.\<close>

record NotificationBody =
  nb_orderId :: string
  nb_newStatus :: string
  nb_trackingNumber :: "string option"

section \<open>Effects\<close>

text \<open>
  Every call a handler makes on the outside world, in the order it makes it: the record
  store, the notification function, the toasts, the console, the router and the
  component's own state setters.
\<close>

datatype effect =
    OrdersUpdate string UpdateData
  | ProductsInsert Product
  | FetchProducts
  | FetchOrders
  | FunctionsInvoke string NotificationBody
  | ToastError string
  | ToastSuccess string
  | ConsoleError string
  | SetShowAddProduct bool
  | SetNewProduct Product
  | PreventDefault
  | SetSubmitting bool
  | SetErrors "(string \<times> string) list"
  | SignUp string string string
  | SignIn string string
  | NavigateReplace string

definition is_write :: "effect \<Rightarrow> bool" where
  "is_write e = (case e of OrdersUpdate _ _ \<Rightarrow> True | _ \<Rightarrow> False)"

definition is_notification :: "effect \<Rightarrow> bool" where
  "is_notification e = (case e of FunctionsInvoke _ _ \<Rightarrow> True | _ \<Rightarrow> False)"

definition is_store_call :: "effect \<Rightarrow> bool" where
  "is_store_call e =
     (case e of OrdersUpdate _ _ \<Rightarrow> True | ProductsInsert _ \<Rightarrow> True
      | FetchProducts \<Rightarrow> True | FetchOrders \<Rightarrow> True | _ \<Rightarrow> False)"

definition is_redirect :: "effect \<Rightarrow> bool" where
  "is_redirect e = (case e of NavigateReplace _ \<Rightarrow> True | _ \<Rightarrow> False)"

definition count_where :: "('a \<Rightarrow> bool) \<Rightarrow> 'a list \<Rightarrow> nat" where
  "count_where P xs = length (filter P xs)"

section \<open>The record store and the notification function\<close>

text \<open>
  Modelled from the spec: the record store behind \<open>supabase.from('orders').update(d).eq('id', i)\<close>
  is an external collaborator whose client is not among the sources. The spec describes its
  update as a partial patch (the supplied fields are written, unspecified fields are never
  overwritten) and a failed write as leaving the observable state unchanged. The flag
  \<open>write_error\<close> is the store's answer: \<open>True\<close> when the call returns an \<open>error\<close>.
\<close>

definition apply_patch :: "UpdateData \<Rightarrow> Order \<Rightarrow> Order" where
  "apply_patch d r =
     (case ud_tracking_number d of
        None \<Rightarrow> r\<lparr>status := ud_status d\<rparr>
      | Some t \<Rightarrow> r\<lparr>status := ud_status d, tracking_number := Some t\<rparr>)"

text \<open>
  Modelled from the spec: the update reaches the rows whose \<open>id\<close> equals the given one,
  patches each of them, and leaves every other row as it is; a failed write changes nothing.
\<close>

definition orders_update :: "bool \<Rightarrow> Order list \<Rightarrow> string \<Rightarrow> UpdateData \<Rightarrow> Order list" where
  "orders_update write_error rows i d =
     (if write_error then rows
      else map (\<lambda>r. if order_id r = i then apply_patch d r else r) rows)"

text \<open>
  What \<open>supabase.functions.invoke\<close> does when awaited: it resolves with no error, resolves
  with \<open>response.error\<close> set, or throws (the handler has a \<open>catch\<close> for that).
\<close>

datatype invoke_outcome = InvokeOk | InvokeError | InvokeThrows

section \<open>\<open>handleUpdateOrderStatus\<close>\<close>

definition build_updateData :: "string \<Rightarrow> string option \<Rightarrow> UpdateData" where
  "build_updateData st trackingNumber =
     (if truthy_opt_string trackingNumber
      then \<lparr>ud_status = st, ud_tracking_number = trackingNumber\<rparr>
      else \<lparr>ud_status = st, ud_tracking_number = None\<rparr>)"

definition notification_body :: "string \<Rightarrow> string \<Rightarrow> string option \<Rightarrow> NotificationBody" where
  "notification_body orderId st trackingNumber =
     \<lparr>nb_orderId = orderId, nb_newStatus = st,
      nb_trackingNumber = (if truthy_opt_string trackingNumber then trackingNumber else None)\<rparr>"

text \<open>
  The handler, given the store's answer to the write and the outcome of the invocation:
  its effects in order, and the \<open>orders\<close> table afterwards.
\<close>

definition handleUpdateOrderStatus ::
  "bool \<Rightarrow> invoke_outcome \<Rightarrow> Order list \<Rightarrow> string \<Rightarrow> string \<Rightarrow> string option
     \<Rightarrow> effect list \<times> Order list" where
  "handleUpdateOrderStatus write_error outcome rows orderId st trackingNumber =
     (let updateData = build_updateData st trackingNumber;
          rows' = orders_update write_error rows orderId updateData
      in if write_error then
           ([OrdersUpdate orderId updateData,
             ToastError ''Failed to update order'',
             ConsoleError ''''], rows')
         else
           ([OrdersUpdate orderId updateData,
             ToastSuccess ''Order updated successfully'',
             FetchOrders,
             FunctionsInvoke ''send-order-notification''
               (notification_body orderId st trackingNumber)]
            @ (case outcome of
                 InvokeThrows \<Rightarrow> [ConsoleError ''Failed to send email notification:'']
               | InvokeError \<Rightarrow>
                   [ConsoleError ''Email notification failed:'',
                    ToastError ''Order updated but email notification failed'']
               | InvokeOk \<Rightarrow> [ToastSuccess ''Customer notified via email'']),
            rows'))"

section \<open>\<open>handleAddProduct\<close> and the effect hook of \<open>AdminPage\<close>\<close>

definition initial_newProduct :: Product where
  "initial_newProduct =
     \<lparr>name = '''', description = '''', price = Num 0, image_url = '''',
      category = ''Seeds'', stock = Num 0, unit = ''kg'', is_active = True\<rparr>"

text \<open>\<open>insert_error\<close> is the store's answer to the insert.\<close>

definition handleAddProduct :: "bool \<Rightarrow> Product \<Rightarrow> effect list" where
  "handleAddProduct insert_error newProduct =
     (if \<not> truthy_string (name newProduct) \<or> \<not> truthy_number (price newProduct) then
        [ToastError ''Please fill in required fields'']
      else
        ProductsInsert newProduct #
        (if insert_error then
           [ToastError ''Failed to add product'', ConsoleError '''']
         else
           [ToastSuccess ''Product added successfully'',
            SetShowAddProduct False,
            SetNewProduct initial_newProduct,
            FetchProducts]))"

text \<open>The hook \<open>useEffect(() => { if (isAdmin) { fetchProducts(); fetchOrders(); } })\<close>.\<close>

definition AdminPage_useEffect :: "bool \<Rightarrow> effect list" where
  "AdminPage_useEffect is_admin = (if is_admin then [FetchProducts, FetchOrders] else [])"

section \<open>The route guards of \<open>App.tsx\<close>\<close>

text \<open>
  What \<open>useAuth()\<close> hands to the guards. The context provider is not among the sources, so
  its three values are inputs here, with no relation assumed between them.
\<close>

record 'u AuthContext =
  user :: "'u option"
  isAdmin :: bool
  loading :: bool

text \<open>
  What a guard renders: the spinner while the session is loading, a \<open>Navigate\<close> to a
  path (with \<open>replace\<close>), or its children.
\<close>

datatype 'a element = Spinner | Navigate string | Children 'a

definition ProtectedRoute :: "'u AuthContext \<Rightarrow> 'a \<Rightarrow> 'a element" where
  "ProtectedRoute ctx children =
     (if loading ctx then Spinner
      else if user ctx = None then Navigate ''/auth''
      else Children children)"

definition AdminRoute :: "'u AuthContext \<Rightarrow> 'a \<Rightarrow> 'a element" where
  "AdminRoute ctx children =
     (if loading ctx then Spinner
      else if user ctx = None \<or> \<not> isAdmin ctx then Navigate ''/''
      else Children children)"

datatype page =
    Index | AuthPage | CropPrediction | Analytics | Shop | Contact | PredictionHistory
  | Cart | Checkout | Orders | AdminPage | NotFound

text \<open>The \<open>Route\<close> entries of \<open>AppContent\<close>, named by their paths.\<close>

datatype route =
    R_root | R_auth | R_predict | R_analytics | R_shop | R_contact | R_history
  | R_cart | R_checkout | R_orders | R_admin | R_star

fun route_element :: "'u AuthContext \<Rightarrow> route \<Rightarrow> page element" where
  "route_element ctx R_root = Children Index"
| "route_element ctx R_auth = (if user ctx \<noteq> None then Navigate ''/'' else Children AuthPage)"
| "route_element ctx R_predict = Children CropPrediction"
| "route_element ctx R_analytics = Children Analytics"
| "route_element ctx R_shop = Children Shop"
| "route_element ctx R_contact = Children Contact"
| "route_element ctx R_history = ProtectedRoute ctx PredictionHistory"
| "route_element ctx R_cart = ProtectedRoute ctx Cart"
| "route_element ctx R_checkout = ProtectedRoute ctx Checkout"
| "route_element ctx R_orders = ProtectedRoute ctx Orders"
| "route_element ctx R_admin = AdminRoute ctx AdminPage"
| "route_element ctx R_star = Children NotFound"

text \<open>
  The store calls caused by showing a route: only a rendered \<open>AdminPage\<close> runs the hook
  above; no other page's hooks are among the sources.
\<close>

definition route_fetches :: "'u AuthContext \<Rightarrow> route \<Rightarrow> effect list" where
  "route_fetches ctx r =
     (case route_element ctx r of
        Children p \<Rightarrow> (if p = AdminPage then AdminPage_useEffect (isAdmin ctx) else [])
      | _ \<Rightarrow> [])"

section \<open>\<open>AuthPage.tsx\<close>\<close>

record FormData =
  fd_name :: string
  fd_email :: string
  fd_password :: string

text \<open>
  The two schemas, as the list of issues \<open>safeParse\<close> reports, in key order (the empty list
  is success). The email check of the validation library is not among the sources; it is
  the parameter \<open>is_email\<close>.
\<close>

definition signupSchema :: "(string \<Rightarrow> bool) \<Rightarrow> FormData \<Rightarrow> (string \<times> string) list" where
  "signupSchema is_email fd =
     (if length (fd_name fd) < 2 then [(''name'', ''Name must be at least 2 characters'')] else [])
     @ (if is_email (fd_email fd) then [] else [(''email'', ''Invalid email address'')])
     @ (if length (fd_password fd) < 6
        then [(''password'', ''Password must be at least 6 characters'')] else [])"

definition loginSchema :: "(string \<Rightarrow> bool) \<Rightarrow> FormData \<Rightarrow> (string \<times> string) list" where
  "loginSchema is_email fd =
     (if is_email (fd_email fd) then [] else [(''email'', ''Invalid email address'')])
     @ (if length (fd_password fd) < 1 then [(''password'', ''Password is required'')] else [])"

text \<open>
  What the awaited \<open>signUp\<close>/\<open>signIn\<close> of the context does: resolves without an error,
  resolves with an error carrying a message, or throws.
\<close>

datatype auth_result = AuthOk | AuthError string | AuthThrows

definition handleSubmit ::
  "(string \<Rightarrow> bool) \<Rightarrow> bool \<Rightarrow> FormData \<Rightarrow> auth_result \<Rightarrow> effect list" where
  "handleSubmit is_email isSignup formData res =
     [PreventDefault, SetSubmitting True, SetErrors []]
     @ (if isSignup then
          (if signupSchema is_email formData \<noteq> [] then
             [SetErrors (signupSchema is_email formData)]
           else
             SignUp (fd_email formData) (fd_password formData) (fd_name formData) #
             (case res of
                AuthThrows \<Rightarrow> [ToastError ''Something went wrong. Please try again.'']
              | AuthError m \<Rightarrow> [ToastError m]
              | AuthOk \<Rightarrow>
                  [ToastSuccess ''Account created successfully!'', NavigateReplace ''/'']))
        else
          (if loginSchema is_email formData \<noteq> [] then
             [SetErrors (loginSchema is_email formData)]
           else
             SignIn (fd_email formData) (fd_password formData) #
             (case res of
                AuthThrows \<Rightarrow> [ToastError ''Something went wrong. Please try again.'']
              | AuthError m \<Rightarrow> [ToastError ''Invalid email or password'']
              | AuthOk \<Rightarrow> [ToastSuccess ''Welcome back!'', NavigateReplace ''/''])))
     @ [SetSubmitting False]"

definition is_auth_call :: "effect \<Rightarrow> bool" where
  "is_auth_call e = (case e of SignUp _ _ _ \<Rightarrow> True | SignIn _ _ \<Rightarrow> True | _ \<Rightarrow> False)"

text \<open>What the page shows the administrator: the toasts. A console line is not one.\<close>

definition is_toast :: "effect \<Rightarrow> bool" where
  "is_toast e = (case e of ToastError _ \<Rightarrow> True | ToastSuccess _ \<Rightarrow> True | _ \<Rightarrow> False)"

section \<open>Sequences of transition calls\<close>

text \<open>
  The administrator's successive calls of the handler on the same table: each call is the
  store's answer, the invocation's outcome and the three arguments; the table after one
  call is the table before the next.
\<close>

type_synonym transition_call = "bool \<times> invoke_outcome \<times> string \<times> string \<times> string option"

fun run_calls :: "Order list \<Rightarrow> transition_call list \<Rightarrow> Order list" where
  "run_calls rows [] = rows"
| "run_calls rows ((we, oc, oid, st, tn) # cs) =
     run_calls (snd (handleUpdateOrderStatus we oc rows oid st tn)) cs"

definition call_status :: "transition_call \<Rightarrow> string" where
  "call_status c = (case c of (we, oc, oid, st, tn) \<Rightarrow> st)"

definition call_trackingNumber :: "transition_call \<Rightarrow> string option" where
  "call_trackingNumber c = (case c of (we, oc, oid, st, tn) \<Rightarrow> tn)"

text \<open>The fields of an order other than \<open>status\<close> and \<open>tracking_number\<close>.\<close>

definition frame ::
  "Order \<Rightarrow> string \<times> string \<times> real \<times> ShippingAddress \<times> string option \<times> string" where
  "frame r =
     (order_id r, user_id r, total_amount r, shipping_address r, order_notes r, created_at r)"

section \<open>Example data\<close>

definition order7 :: Order where
  "order7 =
     \<lparr>order_id = ''7'', user_id = ''u1'', status = ''pending'', total_amount = 250,
      shipping_address =
        \<lparr>fullName = Some ''Asha'', address = None, city = None, state = None,
         pincode = None, phone = None\<rparr>,
      tracking_number = None, order_notes = None, created_at = ''2024-01-01''\<rparr>"

definition order7_shipped :: Order where
  "order7_shipped = order7\<lparr>status := ''shipped'', tracking_number := Some ''T123''\<rparr>"

definition urea_negative :: Product where
  "urea_negative =
     \<lparr>name = ''Urea'', description = '''', price = Num (- 5), image_url = '''',
      category = ''Fertilizers'', stock = Num 0, unit = ''kg'', is_active = True\<rparr>"

definition urea :: Product where
  "urea = urea_negative\<lparr>price := Num 300\<rparr>"

definition customer_ctx :: "string AuthContext" where
  "customer_ctx = \<lparr>user = Some ''asha'', isAdmin = False, loading = False\<rparr>"

definition anonymous_ctx :: "string AuthContext" where
  "anonymous_ctx = \<lparr>user = None, isAdmin = False, loading = False\<rparr>"

definition loading_ctx :: "string AuthContext" where
  "loading_ctx = \<lparr>user = None, isAdmin = False, loading = True\<rparr>"

text \<open>A stand-in for the library's email check, for the examples only.\<close>

definition has_at :: "string \<Rightarrow> bool" where
  "has_at s = (CHR ''@'' \<in> set s)"

definition asha_form :: FormData where
  "asha_form = \<lparr>fd_name = ''Asha'', fd_email = ''asha@x.com'', fd_password = ''secret1''\<rparr>"

definition short_form :: FormData where
  "short_form = \<lparr>fd_name = ''Asha'', fd_email = ''asha@x.com'', fd_password = ''abc''\<rparr>"

definition blank_form :: FormData where
  "blank_form = \<lparr>fd_name = ''Asha'', fd_email = ''asha@x.com'', fd_password = ''''\<rparr>"

definition malformed_form :: FormData where
  "malformed_form = \<lparr>fd_name = ''Asha'', fd_email = ''asha'', fd_password = ''secret1''\<rparr>"

section \<open>Auxiliary facts\<close>

lemmas fx_defs = is_write_def is_notification_def is_store_call_def is_redirect_def
  count_where_def is_toast_def is_auth_call_def

lemmas payload_defs = build_updateData_def notification_body_def truthy_opt_string_def
  truthy_string_def

lemma snd_handle:
  "snd (handleUpdateOrderStatus we oc rows oid st tn) =
     orders_update we rows oid (build_updateData st tn)"
  by (simp add: handleUpdateOrderStatus_def Let_def)

lemma fst_handle_ok:
  "fst (handleUpdateOrderStatus False oc rows oid st tn) =
     [OrdersUpdate oid (build_updateData st tn),
      ToastSuccess ''Order updated successfully'',
      FetchOrders,
      FunctionsInvoke ''send-order-notification'' (notification_body oid st tn)]
     @ (case oc of
          InvokeThrows \<Rightarrow> [ConsoleError ''Failed to send email notification:'']
        | InvokeError \<Rightarrow>
            [ConsoleError ''Email notification failed:'',
             ToastError ''Order updated but email notification failed'']
        | InvokeOk \<Rightarrow> [ToastSuccess ''Customer notified via email''])"
  by (simp add: handleUpdateOrderStatus_def Let_def)

lemma fst_handle_error:
  "fst (handleUpdateOrderStatus True oc rows oid st tn) =
     [OrdersUpdate oid (build_updateData st tn), ToastError ''Failed to update order'',
      ConsoleError '''']"
  by (simp add: handleUpdateOrderStatus_def Let_def)

lemma tracking_apply_patch_absent:
  "ud_tracking_number d = None \<Longrightarrow> tracking_number (apply_patch d r) = tracking_number r"
  by (simp add: apply_patch_def)

lemma build_updateData_absent:
  "tn = None \<or> tn = Some '''' \<Longrightarrow> ud_tracking_number (build_updateData st tn) = None"
  by (auto simp: build_updateData_def truthy_opt_string_def truthy_string_def)

lemma tracking_orders_update_absent:
  "ud_tracking_number d = None \<Longrightarrow>
     map tracking_number (orders_update we rows oid d) = map tracking_number rows"
  by (induction rows) (simp_all add: orders_update_def tracking_apply_patch_absent)

lemma frame_apply_patch: "frame (apply_patch d r) = frame r"
  by (simp add: apply_patch_def frame_def split: option.splits)

lemma frame_orders_update: "map frame (orders_update we rows oid d) = map frame rows"
  by (induction rows) (simp_all add: orders_update_def frame_apply_patch)

lemma frame_run_calls: "map frame (run_calls rows cs) = map frame rows"
  by (induction rows cs rule: run_calls.induct) (simp_all add: snd_handle frame_orders_update)

lemma total_amount_of_frame:
  assumes "map frame xs = map frame ys"
  shows "map total_amount xs = map total_amount ys"
proof -
  have t: "total_amount = (\<lambda>r. fst (snd (snd (frame r))))"
    by (simp add: frame_def fun_eq_iff)
  have "map (\<lambda>p. fst (snd (snd p))) (map frame xs) = map (\<lambda>p. fst (snd (snd p))) (map frame ys)"
    using assms by simp
  then show ?thesis by (simp add: t o_def)
qed

lemma status_build_updateData: "ud_status (build_updateData st tn) = st"
  by (simp add: build_updateData_def)

lemma status_apply_patch: "status (apply_patch d r) = ud_status d"
  by (simp add: apply_patch_def split: option.splits)

lemma status_orders_update:
  assumes "r \<in> set (orders_update False rows oid d)" and "order_id r = oid"
  shows "status r = ud_status d"
proof -
  from assms(1)
  have "r \<in> (\<lambda>r0. if order_id r0 = oid then apply_patch d r0 else r0) ` set rows"
    by (simp add: orders_update_def)
  then obtain r0 where
    r: "r = (if order_id r0 = oid then apply_patch d r0 else r0)"
    by (rule imageE)
  show ?thesis
  proof (cases "order_id r0 = oid")
    case True
    with r have "r = apply_patch d r0" by simp
    then show ?thesis by (simp add: status_apply_patch)
  next
    case False
    with r have "r = r0" by simp
    with False assms(2) show ?thesis by simp
  qed
qed

lemma status_after_handle:
  "r \<in> set (snd (handleUpdateOrderStatus False oc rows oid st tn)) \<Longrightarrow> order_id r = oid
     \<Longrightarrow> status r = st"
  using status_orders_update [of r rows oid "build_updateData st tn"]
  by (simp add: snd_handle status_build_updateData)

section \<open>The order workflow\<close>

text \<open>
  C1. In every call of \<open>handleUpdateOrderStatus\<close> the status write is the first effect, so
  every notification attempt has the write before it; a call whose write fails makes no
  notification attempt, a call whose write succeeds makes exactly one, and so no call
  makes more than one.
\<close>

theorem write_precedes_notification:
  "(let es = fst (handleUpdateOrderStatus we oc rows oid st tn)
    in hd es = OrdersUpdate oid (build_updateData st tn)
       \<and> (\<forall>j < length es. is_notification (es ! j) \<longrightarrow> (\<exists>i < j. is_write (es ! i)))
       \<and> count_where is_notification es \<le> 1
       \<and> (we \<longrightarrow> count_where is_notification es = 0)
       \<and> (\<not> we \<longrightarrow> count_where is_notification es = 1))"
  apply (cases we; cases oc)
  apply (auto simp: handleUpdateOrderStatus_def Let_def fx_defs nth_Cons' split: if_splits)
  done

theorem write_precedes_notification_witness:
  "hd (fst (handleUpdateOrderStatus False InvokeOk [order7] ''7'' ''shipped'' (Some ''T123'')))
     = OrdersUpdate ''7'' \<lparr>ud_status = ''shipped'', ud_tracking_number = Some ''T123''\<rparr>
   \<and> count_where is_notification
       (fst (handleUpdateOrderStatus False InvokeOk [order7] ''7'' ''shipped'' (Some ''T123''))) = 1
   \<and> count_where is_notification
       (fst (handleUpdateOrderStatus True InvokeOk [order7] ''7'' ''shipped'' (Some ''T123''))) = 0"
  using
    write_precedes_notification [where we = False and oc = InvokeOk and rows = "[order7]"
      and oid = "''7''" and st = "''shipped''" and tn = "Some ''T123''"]
    write_precedes_notification [where we = True and oc = InvokeOk and rows = "[order7]"
      and oid = "''7''" and st = "''shipped''" and tn = "Some ''T123''"]
  by (simp add: Let_def payload_defs)




text \<open>
  C3. Over any sequence of transition calls that each omit the tracking number or supply
  the empty string, every order keeps the tracking number it had (in particular a
  non-empty one that was set before), and the payload of each such call has no
  \<open>tracking_number\<close> key: the write is a partial patch.
\<close>

theorem trackingNumber_kept_when_omitted:
  assumes "\<forall>c \<in> set cs. call_trackingNumber c = None \<or> call_trackingNumber c = Some ''''"
  shows "map tracking_number (run_calls rows cs) = map tracking_number rows
         \<and> (\<forall>c \<in> set cs.
              ud_tracking_number (build_updateData (call_status c) (call_trackingNumber c)) = None)"
proof
  show "map tracking_number (run_calls rows cs) = map tracking_number rows"
    using assms
  proof (induction rows cs rule: run_calls.induct)
    case (1 rows)
    show ?case by simp
  next
    case (2 rows we oc oid st tn cs)
    from "2.prems" have tn: "tn = None \<or> tn = Some ''''"
      by (simp add: call_trackingNumber_def)
    from "2.prems"
    have rest: "\<forall>c \<in> set cs. call_trackingNumber c = None \<or> call_trackingNumber c = Some ''''"
      by simp
    have "map tracking_number (snd (handleUpdateOrderStatus we oc rows oid st tn))
            = map tracking_number rows"
      by (simp add: snd_handle tracking_orders_update_absent build_updateData_absent [OF tn])
    with "2.IH" [OF rest] show ?case by simp
  qed
  show "\<forall>c \<in> set cs.
          ud_tracking_number (build_updateData (call_status c) (call_trackingNumber c)) = None"
    using assms by (simp add: build_updateData_absent)
qed

theorem trackingNumber_kept_when_omitted_witness:
  "map tracking_number
     (run_calls [order7_shipped]
        [(False, InvokeOk, ''7'', ''delivered'', None),
         (False, InvokeError, ''7'', ''cancelled'', Some '''')])
   = [Some ''T123'']"
proof -
  have h: "\<forall>c \<in> set [(False, InvokeOk, ''7'', ''delivered'', None),
                       (False, InvokeError, ''7'', ''cancelled'', Some '''')].
             call_trackingNumber c = None \<or> call_trackingNumber c = Some ''''"
    by (simp add: call_trackingNumber_def)
  show ?thesis
    using trackingNumber_kept_when_omitted [OF h, where rows = "[order7_shipped]"]
    by (simp add: order7_shipped_def)
qed

text \<open>
  C4. A transition call changes no field of any order other than \<open>status\<close> and
  \<open>tracking_number\<close>: identifier, owner, total amount, shipping address, notes and
  creation time are the same after the call, whatever its arguments and outcome; so the
  total amount of every order is unchanged by one call and by any sequence of calls.
\<close>

theorem total_amount_unchanged:
  "map frame (snd (handleUpdateOrderStatus we oc rows oid st tn)) = map frame rows
   \<and> map total_amount (snd (handleUpdateOrderStatus we oc rows oid st tn))
       = map total_amount rows
   \<and> map total_amount (run_calls rows cs) = map total_amount rows"
proof -
  have a: "map frame (snd (handleUpdateOrderStatus we oc rows oid st tn)) = map frame rows"
    by (simp add: snd_handle frame_orders_update)
  show ?thesis
    using a total_amount_of_frame [OF a] total_amount_of_frame [OF frame_run_calls]
    by simp
qed

theorem total_amount_unchanged_witness:
  "map total_amount
     (snd (handleUpdateOrderStatus False InvokeOk [order7] ''7'' ''shipped'' (Some ''T123'')))
   = [250]"
  using total_amount_unchanged [where we = False and oc = InvokeOk and rows = "[order7]"
      and oid = "''7''" and st = "''shipped''" and tn = "Some ''T123''" and cs = "[]"]
  by (simp add: order7_def)

text \<open>
  C5, as claimed, fails: the token \<open>refunded\<close> is not one of the status options, and a
  call with it writes it to the order and notifies the customer of it.
\<close>

theorem unrecognized_status_written:
  "''refunded'' \<notin> set statusOptions
   \<and> fst (handleUpdateOrderStatus False InvokeOk [order7] ''7'' ''refunded'' None)
     = [OrdersUpdate ''7'' \<lparr>ud_status = ''refunded'', ud_tracking_number = None\<rparr>,
        ToastSuccess ''Order updated successfully'',
        FetchOrders,
        FunctionsInvoke ''send-order-notification''
          \<lparr>nb_orderId = ''7'', nb_newStatus = ''refunded'', nb_trackingNumber = None\<rparr>,
        ToastSuccess ''Customer notified via email'']
   \<and> map status (snd (handleUpdateOrderStatus False InvokeOk [order7] ''7'' ''refunded'' None))
     = [''refunded'']"
  by (simp add: statusOptions_def fst_handle_ok snd_handle payload_defs orders_update_def
      apply_patch_def order7_def)

text \<open>
  C5, amended. The handler checks no status token: for every token, in the status set or
  not, the first effect is the write of that token; when the write succeeds every order
  with the given identifier has that token as its status and the one notification carries
  it. The status set itself is the seven options the page offers in its select.
\<close>

theorem status_token_unchecked:
  "(let es = fst (handleUpdateOrderStatus we oc rows oid st tn);
        rows' = snd (handleUpdateOrderStatus we oc rows oid st tn)
    in (\<exists>d. hd es = OrdersUpdate oid d \<and> ud_status d = st)
       \<and> (\<not> we \<longrightarrow>
            (\<forall>r \<in> set rows'. order_id r = oid \<longrightarrow> status r = st)
            \<and> (\<exists>b. filter is_notification es = [FunctionsInvoke ''send-order-notification'' b]
                  \<and> nb_newStatus b = st)))
   \<and> set statusOptions =
       {''pending'', ''confirmed'', ''processing'', ''packed'', ''shipped'', ''delivered'',
        ''cancelled''}"
  unfolding Let_def
  apply (intro conjI ballI impI)
     apply (cases we; simp add: fst_handle_ok fst_handle_error status_build_updateData)
    apply (simp, erule (1) status_after_handle)
   apply (cases oc; simp add: fst_handle_ok fx_defs notification_body_def)
  apply (simp add: statusOptions_def)
  done

theorem status_token_unchecked_witness:
  "map status (snd (handleUpdateOrderStatus False InvokeOk [order7] ''7'' ''shipped''
     (Some ''T123''))) = [''shipped'']
   \<and> filter is_notification
       (fst (handleUpdateOrderStatus False InvokeOk [order7] ''7'' ''shipped'' (Some ''T123'')))
     = [FunctionsInvoke ''send-order-notification''
          \<lparr>nb_orderId = ''7'', nb_newStatus = ''shipped'', nb_trackingNumber = Some ''T123''\<rparr>]"
  using status_token_unchecked [where we = False and oc = InvokeOk and rows = "[order7]"
      and oid = "''7''" and st = "''shipped''" and tn = "Some ''T123''"]
  by (simp add: Let_def fst_handle_ok snd_handle payload_defs orders_update_def apply_patch_def
      order7_def fx_defs)

section \<open>The route guards\<close>

text \<open>
  C6. Each of the two guards renders the pending element (the spinner) exactly when the
  loading flag of the session is true; while it is true neither guard renders a redirect,
  and a guard that renders a redirect does so only when the flag is false.
\<close>

theorem pending_iff_loading:
  "(ProtectedRoute ctx c = Spinner \<longleftrightarrow> loading ctx)
   \<and> (AdminRoute ctx c = Spinner \<longleftrightarrow> loading ctx)
   \<and> (loading ctx \<longrightarrow>
        (\<forall>p. ProtectedRoute ctx c \<noteq> Navigate p \<and> AdminRoute ctx c \<noteq> Navigate p))
   \<and> ((\<exists>p. ProtectedRoute ctx c = Navigate p) \<longrightarrow> \<not> loading ctx)
   \<and> ((\<exists>p. AdminRoute ctx c = Navigate p) \<longrightarrow> \<not> loading ctx)"
  by (auto simp: ProtectedRoute_def AdminRoute_def split: if_splits)

theorem pending_iff_loading_witness:
  "ProtectedRoute loading_ctx Cart = Spinner
   \<and> AdminRoute loading_ctx AdminPage = Spinner
   \<and> ProtectedRoute loading_ctx Cart \<noteq> Navigate ''/auth''
   \<and> AdminRoute loading_ctx AdminPage \<noteq> Navigate ''/''
   \<and> ProtectedRoute anonymous_ctx Cart \<noteq> Spinner
   \<and> AdminRoute customer_ctx AdminPage \<noteq> Spinner"
proof -
  have l: "loading loading_ctx" and a: "\<not> loading anonymous_ctx"
    and c: "\<not> loading customer_ctx"
    by (simp_all add: loading_ctx_def anonymous_ctx_def customer_ctx_def)
  from l pending_iff_loading [where ctx = loading_ctx and c = Cart]
  have 1: "ProtectedRoute loading_ctx Cart = Spinner
           \<and> ProtectedRoute loading_ctx Cart \<noteq> Navigate ''/auth''"
    by blast
  from l pending_iff_loading [where ctx = loading_ctx and c = AdminPage]
  have 2: "AdminRoute loading_ctx AdminPage = Spinner
           \<and> AdminRoute loading_ctx AdminPage \<noteq> Navigate ''/''"
    by blast
  from a pending_iff_loading [where ctx = anonymous_ctx and c = Cart]
  have 3: "ProtectedRoute anonymous_ctx Cart \<noteq> Spinner"
    by blast
  from c pending_iff_loading [where ctx = customer_ctx and c = AdminPage]
  have 4: "AdminRoute customer_ctx AdminPage \<noteq> Spinner"
    by blast
  from 1 2 3 4 show ?thesis by blast
qed

text \<open>
  C7. When the session has loaded, the authenticated guard with no bound account
  redirects to the login page, and that is the only redirect it makes; the administrator
  guard with no account or a non-administrator account redirects to the home route, and
  that is the only redirect it makes. For a non-administrator the effect hook of the
  admin page fetches neither products nor orders, and showing the admin route causes no
  fetch.
\<close>

theorem deny_redirects_to_fallback:
  "(\<not> loading ctx \<and> user ctx = None \<longrightarrow> ProtectedRoute ctx c = Navigate ''/auth'')
   \<and> (ProtectedRoute ctx c = Navigate p \<longrightarrow> p = ''/auth'' \<and> user ctx = None)
   \<and> (\<not> loading ctx \<and> (user ctx = None \<or> \<not> isAdmin ctx) \<longrightarrow>
        AdminRoute ctx c = Navigate ''/'')
   \<and> (AdminRoute ctx c = Navigate p \<longrightarrow> p = ''/'' \<and> (user ctx = None \<or> \<not> isAdmin ctx))
   \<and> (\<not> isAdmin ctx \<longrightarrow>
        AdminPage_useEffect (isAdmin ctx) = [] \<and> route_fetches ctx R_admin = [])"
  by (auto simp: ProtectedRoute_def AdminRoute_def AdminPage_useEffect_def route_fetches_def
      split: if_splits)

theorem deny_redirects_to_fallback_witness:
  "ProtectedRoute anonymous_ctx Cart = Navigate ''/auth''
   \<and> AdminRoute customer_ctx AdminPage = Navigate ''/''
   \<and> AdminPage_useEffect (isAdmin customer_ctx) = []
   \<and> route_fetches customer_ctx R_admin = []"
proof -
  have a: "\<not> loading anonymous_ctx \<and> user anonymous_ctx = None"
    by (simp add: anonymous_ctx_def)
  have c: "\<not> loading customer_ctx \<and> (user customer_ctx = None \<or> \<not> isAdmin customer_ctx)"
    by (simp add: customer_ctx_def)
  have n: "\<not> isAdmin customer_ctx"
    by (simp add: customer_ctx_def)
  from a deny_redirects_to_fallback [where ctx = anonymous_ctx and c = Cart]
  have 1: "ProtectedRoute anonymous_ctx Cart = Navigate ''/auth''"
    by blast
  from c n deny_redirects_to_fallback [where ctx = customer_ctx and c = AdminPage]
  have 2: "AdminRoute customer_ctx AdminPage = Navigate ''/''
           \<and> AdminPage_useEffect (isAdmin customer_ctx) = []
           \<and> route_fetches customer_ctx R_admin = []"
    by blast
  from 1 2 show ?thesis by blast
qed

section \<open>The catalog\<close>

text \<open>
  C8, as claimed, fails: a product with a name and the price \<open>-5\<close>, which is not
  positive, is not rejected; it is inserted.
\<close>

theorem negative_price_inserted:
  "\<not> (0::real) < - 5
   \<and> price urea_negative = Num (- 5)
   \<and> handleAddProduct False urea_negative
     = [ProductsInsert urea_negative,
        ToastSuccess ''Product added successfully'',
        SetShowAddProduct False,
        SetNewProduct initial_newProduct,
        FetchProducts]"
  by (simp add: handleAddProduct_def truthy_string_def truthy_number_def urea_negative_def)

text \<open>
  C8, amended. A product with an empty name, or with a price that is zero or not a
  number, is rejected with the required-fields message and no call on the record store
  is made; a product with a non-empty name and a price that is a number other than zero,
  in particular a positive one, is inserted as the first effect.
\<close>

theorem required_fields_checked_locally:
  "(name p = '''' \<or> price p = NaN \<or> price p = Num 0 \<longrightarrow>
      handleAddProduct ie p = [ToastError ''Please fill in required fields'']
      \<and> count_where is_store_call (handleAddProduct ie p) = 0)
   \<and> (name p \<noteq> '''' \<and> (\<exists>x. price p = Num x \<and> x \<noteq> 0) \<longrightarrow>
      hd (handleAddProduct ie p) = ProductsInsert p)
   \<and> (name p \<noteq> '''' \<and> (\<exists>x. price p = Num x \<and> 0 < x) \<longrightarrow>
      hd (handleAddProduct ie p) = ProductsInsert p)"
  by (auto simp: handleAddProduct_def truthy_string_def truthy_number_def fx_defs)

theorem required_fields_checked_locally_witness:
  "handleAddProduct False initial_newProduct = [ToastError ''Please fill in required fields'']
   \<and> count_where is_store_call (handleAddProduct False initial_newProduct) = 0
   \<and> hd (handleAddProduct False urea) = ProductsInsert urea"
proof -
  have r: "name initial_newProduct = '''' \<or> price initial_newProduct = NaN
           \<or> price initial_newProduct = Num 0"
    by (simp add: initial_newProduct_def)
  have i: "name urea \<noteq> '''' \<and> (\<exists>x. price urea = Num x \<and> 0 < x)"
    by (simp add: urea_def urea_negative_def)
  show ?thesis
    using r i
      required_fields_checked_locally [where p = initial_newProduct and ie = False]
      required_fields_checked_locally [where p = urea and ie = False]
    by (simp add: fx_defs)
qed

section \<open>Sign-up and sign-in\<close>

text \<open>
  C9. A submission that passes its schema and whose sign-up or sign-in call resolves
  without an error issues exactly one redirect, to the home route; any other submission
  (rejected by the schema, answered with an error, or interrupted by an exception) issues
  none; and while an account is bound to the session the auth route renders a redirect to
  the home route.
\<close>

theorem one_redirect_on_success:
  "(let es = handleSubmit is_email su fd res;
        issues = (if su then signupSchema is_email fd else loginSchema is_email fd)
    in (issues = [] \<and> res = AuthOk \<longrightarrow>
          filter is_redirect es = [NavigateReplace ''/''])
       \<and> (\<not> (issues = [] \<and> res = AuthOk) \<longrightarrow> filter is_redirect es = []))
   \<and> (user ctx \<noteq> None \<longrightarrow> route_element ctx R_auth = Navigate ''/'')"
  apply (cases res; cases su)
  apply (auto simp: handleSubmit_def Let_def fx_defs)
  done

theorem one_redirect_on_success_witness:
  "filter is_redirect (handleSubmit has_at True asha_form AuthOk) = [NavigateReplace ''/'']
   \<and> filter is_redirect (handleSubmit has_at False asha_form AuthOk) = [NavigateReplace ''/'']
   \<and> filter is_redirect (handleSubmit has_at False asha_form (AuthError ''bad'')) = []
   \<and> filter is_redirect (handleSubmit has_at True short_form AuthOk) = []
   \<and> route_element customer_ctx R_auth = Navigate ''/''"
proof -
  have s: "signupSchema has_at asha_form = []" and l: "loginSchema has_at asha_form = []"
    and w: "signupSchema has_at short_form \<noteq> []"
    by (simp_all add: signupSchema_def loginSchema_def asha_form_def short_form_def has_at_def)
  have u: "user customer_ctx \<noteq> None"
    by (simp add: customer_ctx_def)
  show ?thesis
    using s l w u
      one_redirect_on_success [where is_email = has_at and su = True and fd = asha_form
        and res = AuthOk and ctx = customer_ctx]
      one_redirect_on_success [where is_email = has_at and su = False and fd = asha_form
        and res = AuthOk and ctx = customer_ctx]
      one_redirect_on_success [where is_email = has_at and su = False and fd = asha_form
        and res = "AuthError ''bad''" and ctx = customer_ctx]
      one_redirect_on_success [where is_email = has_at and su = True and fd = short_form
        and res = AuthOk and ctx = customer_ctx]
    by (simp add: Let_def)
qed

text \<open>
  C10. The sign-in schema accepts a form exactly when the email is valid and the password
  is non-empty; the sign-up schema exactly when, besides, the name has two characters and
  the password six. The handler follows its schema on every form: on sign-in it calls
  \<open>signIn\<close>, once and with the form's email and password, exactly when the email is valid
  and the password non-empty, and otherwise makes no external call and sets the field
  errors; on sign-up it calls \<open>signUp\<close> exactly when the name, the email and the
  six-character minimum all pass. So a form with a valid email and a password of one to
  five characters is forwarded on sign-in, while on sign-up it is rejected locally with
  the minimum-length message and no external call is made.
\<close>

theorem password_length_only_on_signup:
  "(loginSchema is_email fd = [] \<longleftrightarrow> is_email (fd_email fd) \<and> fd_password fd \<noteq> '''')
   \<and> (signupSchema is_email fd = [] \<longleftrightarrow>
        2 \<le> length (fd_name fd) \<and> is_email (fd_email fd) \<and> 6 \<le> length (fd_password fd))
   \<and> filter is_auth_call (handleSubmit is_email False fd res)
       = (if is_email (fd_email fd) \<and> fd_password fd \<noteq> ''''
          then [SignIn (fd_email fd) (fd_password fd)] else [])
   \<and> filter is_auth_call (handleSubmit is_email True fd res)
       = (if 2 \<le> length (fd_name fd) \<and> is_email (fd_email fd) \<and> 6 \<le> length (fd_password fd)
          then [SignUp (fd_email fd) (fd_password fd) (fd_name fd)] else [])
   \<and> (\<not> (is_email (fd_email fd) \<and> fd_password fd \<noteq> '''') \<longrightarrow>
        handleSubmit is_email False fd res
          = [PreventDefault, SetSubmitting True, SetErrors [],
             SetErrors (loginSchema is_email fd), SetSubmitting False])
   \<and> (is_email (fd_email fd) \<and> 1 \<le> length (fd_password fd) \<and> length (fd_password fd) \<le> 5
        \<longrightarrow>
        filter is_auth_call (handleSubmit is_email False fd res)
          = [SignIn (fd_email fd) (fd_password fd)]
        \<and> filter is_auth_call (handleSubmit is_email True fd res) = []
        \<and> (''password'', ''Password must be at least 6 characters'')
            \<in> set (signupSchema is_email fd))"
  apply (cases res)
  apply (auto simp: handleSubmit_def loginSchema_def signupSchema_def fx_defs)
  done

theorem password_length_only_on_signup_witness:
  "filter is_auth_call (handleSubmit has_at False short_form AuthOk)
     = [SignIn ''asha@x.com'' ''abc'']
   \<and> filter is_auth_call (handleSubmit has_at True short_form AuthOk) = []
   \<and> (''password'', ''Password must be at least 6 characters'')
       \<in> set (signupSchema has_at short_form)
   \<and> handleSubmit has_at False blank_form AuthOk
     = [PreventDefault, SetSubmitting True, SetErrors [],
        SetErrors [(''password'', ''Password is required'')], SetSubmitting False]
   \<and> handleSubmit has_at False malformed_form AuthOk
     = [PreventDefault, SetSubmitting True, SetErrors [],
        SetErrors [(''email'', ''Invalid email address'')], SetSubmitting False]"
proof -
  have h: "has_at (fd_email short_form) \<and> 1 \<le> length (fd_password short_form)
           \<and> length (fd_password short_form) \<le> 5"
    by (simp add: short_form_def has_at_def)
  have e: "fd_email short_form = ''asha@x.com''" and p: "fd_password short_form = ''abc''"
    by (simp_all add: short_form_def)
  have b: "\<not> (has_at (fd_email blank_form) \<and> fd_password blank_form \<noteq> '''')"
    and bl: "loginSchema has_at blank_form = [(''password'', ''Password is required'')]"
    by (simp_all add: blank_form_def has_at_def loginSchema_def)
  have m: "\<not> (has_at (fd_email malformed_form) \<and> fd_password malformed_form \<noteq> '''')"
    and ml: "loginSchema has_at malformed_form = [(''email'', ''Invalid email address'')]"
    by (simp_all add: malformed_form_def has_at_def loginSchema_def)
  from h password_length_only_on_signup [where is_email = has_at and fd = short_form
      and res = AuthOk]
  have 1: "filter is_auth_call (handleSubmit has_at False short_form AuthOk)
             = [SignIn ''asha@x.com'' ''abc'']
           \<and> filter is_auth_call (handleSubmit has_at True short_form AuthOk) = []
           \<and> (''password'', ''Password must be at least 6 characters'')
               \<in> set (signupSchema has_at short_form)"
    unfolding e p by blast
  from b password_length_only_on_signup [where is_email = has_at and fd = blank_form
      and res = AuthOk]
  have 2: "handleSubmit has_at False blank_form AuthOk
             = [PreventDefault, SetSubmitting True, SetErrors [],
                SetErrors [(''password'', ''Password is required'')], SetSubmitting False]"
    unfolding bl by blast
  from m password_length_only_on_signup [where is_email = has_at and fd = malformed_form
      and res = AuthOk]
  have 3: "handleSubmit has_at False malformed_form AuthOk
             = [PreventDefault, SetSubmitting True, SetErrors [],
                SetErrors [(''email'', ''Invalid email address'')], SetSubmitting False]"
    unfolding ml by blast
  from 1 2 3 show ?thesis by blast
qed

end
